theory Spec2Isabelle
  imports Main
begin

section \<open>Hook Engine: intent gate and audit trail (src/hooks/index.ts)\<close>

text \<open>
  The hook engine intercepts every tool call of the agent. \<open>runPreHook\<close> decides
  whether the call may run; \<open>runPostHook\<close> records an allowed mutation in
  \<open>agent_trace.jsonl\<close> and \<open>intent_map.md\<close>. Both are asynchronous functions over the
  file system; here they are functions of a snapshot of what the file system, the
  clock and the child process return at the time of the call.
\<close>

subsection \<open>JavaScript strings\<close>

text \<open>
  Strings are byte lists (UTF-8). \<open>truthy\<close> is the JavaScript truth value of a value of
  type \<open>string | undefined\<close>: \<open>undefined\<close> and the empty string are falsy.
\<close>

definition truthy :: "string option \<Rightarrow> bool" where
  "truthy v = (case v of None \<Rightarrow> False | Some s \<Rightarrow> s \<noteq> [])"

text \<open>\<open>Array.prototype.join\<close> on an array of strings.\<close>

fun js_join :: "string \<Rightarrow> string list \<Rightarrow> string" where
  "js_join sep [] = []"
| "js_join sep [x] = x"
| "js_join sep (x # y # ys) = x @ sep @ js_join sep (y # ys)"

text \<open>\<open>a || b\<close> on strings: the empty string is falsy.\<close>

definition or_else :: "string \<Rightarrow> string \<Rightarrow> string" where
  "or_else a b = (if a = [] then b else a)"

text \<open>\<open>s.split(sep)\<close> for a separator of one character: always at least one piece.\<close>

fun split_on :: "char \<Rightarrow> string \<Rightarrow> string list" where
  "split_on sep [] = [[]]"
| "split_on sep (c # cs) =
     (if c = sep then [] # split_on sep cs
      else (case split_on sep cs of
              [] \<Rightarrow> [[c]]
            | l # ls \<Rightarrow> (c # l) # ls))"

text \<open>\<open>s.endsWith(t)\<close>.\<close>

definition endsWith :: "string \<Rightarrow> string \<Rightarrow> bool" where
  "endsWith s t = (length t \<le> length s \<and> drop (length s - length t) s = t)"

text \<open>\<open>s.slice(0, n)\<close>.\<close>

definition slice0 :: "nat \<Rightarrow> string \<Rightarrow> string" where
  "slice0 n s = take n s"

text \<open>\<open>s.replace(/\\/g, "/")\<close>: every backslash becomes a slash.\<close>

definition replace_backslashes :: "string \<Rightarrow> string" where
  "replace_backslashes s = map (\<lambda>c. if c = CHR 0x5C then CHR ''/'' else c) s"

text \<open>\<open>s.trim()\<close>, for the ASCII white space (tab, LF, VT, FF, CR, space).\<close>

definition is_space :: "char \<Rightarrow> bool" where
  "is_space c = (c \<in> set [CHR 0x09, CHR 0x0A, CHR 0x0B, CHR 0x0C, CHR 0x0D, CHR '' ''])"

definition trim :: "string \<Rightarrow> string" where
  "trim s = rev (dropWhile is_space (rev (dropWhile is_space s)))"

subsection \<open>What the gate does not own: libraries and the environment\<close>

text \<open>
  \<open>path\<close>, \<open>crypto\<close> and \<open>minimatch\<close> are imported packages. Their functions are
  parameters of the model:
  \<^item> \<open>path_join a b\<close> is \<open>path.join(a, b)\<close>, \<open>path_isAbsolute\<close> is \<open>path.isAbsolute\<close>;
  \<^item> \<open>sha256\<close> is the function of that name (lines 32-34), the hexadecimal digest
    computed by \<open>crypto\<close>;
  \<^item> \<open>minimatch p g\<close> is \<open>minimatch(p, g, { matchBase: true, dot: true })\<close>.
\<close>

record platform =
  path_join :: "string \<Rightarrow> string \<Rightarrow> string"
  path_isAbsolute :: "string \<Rightarrow> bool"
  sha256 :: "string \<Rightarrow> string"
  minimatch :: "string \<Rightarrow> string \<Rightarrow> bool"

text \<open>
  An intent record of the registry, with the fields the gate reads. A field other than
  the id may be missing (\<open>undefined\<close> or \<open>null\<close> in the parsed document).
\<close>

record intent =
  intent_id :: string
  name :: "string option"
  status :: "string option"
  owned_scope :: "string list option"
  constraints :: "string list option"
  acceptance_criteria :: "string list option"

text \<open>
  What \<open>fs.access\<close>, \<open>fs.readFile\<close> and \<open>YAML.parse\<close> give for a registry path:
  \<^item> \<open>Missing\<close>: \<open>fs.access\<close> throws;
  \<^item> \<open>Unreadable\<close>: the file is there, and \<open>fs.readFile\<close> or \<open>YAML.parse\<close> throws;
  \<^item> \<open>Malformed\<close>: the document parses, and \<open>data && Array.isArray(data.active_intents)\<close>
    is false;
  \<^item> \<open>Registry is\<close>: \<open>data.active_intents\<close> is the array \<open>is\<close> of intent records.
\<close>

datatype registry = Missing | Unreadable | Malformed | Registry "intent list"

text \<open>
  The snapshot: the registry by its path, the content of every other file by its path
  (\<open>None\<close>: \<open>fs.readFile\<close> throws, there is no such file), and the output of
  \<open>execSync("git rev-parse HEAD", { cwd, timeout: 2000 })\<close> by working directory
  (\<open>None\<close>: it throws: no repository, no git, or the timeout).
\<close>

record world =
  registry_at :: "string \<Rightarrow> registry"
  readFile :: "string \<Rightarrow> string option"
  git_rev_parse :: "string \<Rightarrow> string option"

subsection \<open>Internal helpers\<close>

definition getGitSha :: "world \<Rightarrow> string \<Rightarrow> string" where
  "getGitSha w cwd =
     (case git_rev_parse w cwd of
        Some out \<Rightarrow> trim out
      | None \<Rightarrow> ''no-git'')"

definition hashFileOnDisk :: "platform \<Rightarrow> world \<Rightarrow> string \<Rightarrow> string option" where
  "hashFileOnDisk P w filePath =
     (case readFile w filePath of
        Some content \<Rightarrow> Some (sha256 P content)
      | None \<Rightarrow> None)"

subsection \<open>Orchestration paths\<close>

definition getOrchestrationDir :: "platform \<Rightarrow> string \<Rightarrow> string" where
  "getOrchestrationDir P cwd = path_join P cwd ''.orchestration''"

definition getActiveIntentsPath :: "platform \<Rightarrow> string \<Rightarrow> string" where
  "getActiveIntentsPath P cwd = path_join P (getOrchestrationDir P cwd) ''active_intents.yaml''"

definition getAgentTracePath :: "platform \<Rightarrow> string \<Rightarrow> string" where
  "getAgentTracePath P cwd = path_join P (getOrchestrationDir P cwd) ''agent_trace.jsonl''"

definition getIntentMapPath :: "platform \<Rightarrow> string \<Rightarrow> string" where
  "getIntentMapPath P cwd = path_join P (getOrchestrationDir P cwd) ''intent_map.md''"

subsection \<open>Intent helpers\<close>

definition getActiveIntent :: "platform \<Rightarrow> world \<Rightarrow> string \<Rightarrow> string \<Rightarrow> intent option" where
  "getActiveIntent P w cwd intentId =
     (case registry_at w (getActiveIntentsPath P cwd) of
        Registry is \<Rightarrow> find (\<lambda>i. intent_id i = intentId) is
      | _ \<Rightarrow> None)"

text \<open>
  The list of ids shown in an error (lines 135-144 and 192-205): the ids joined by
  \<open>", "\<close>, \<open>"none"\<close> when that is empty, and the text \<open>dflt\<close> when the registry cannot
  be read or has not the expected shape.
\<close>

definition availableIds :: "platform \<Rightarrow> world \<Rightarrow> string \<Rightarrow> string \<Rightarrow> string" where
  "availableIds P w cwd dflt =
     (case registry_at w (getActiveIntentsPath P cwd) of
        Registry is \<Rightarrow> or_else (js_join '', '' (map intent_id is)) ''none''
      | _ \<Rightarrow> dflt)"

subsection \<open>The pre-hook\<close>

text \<open>
  The invocation context (\<open>PreHookContext\<close> of \<open>./types\<close>): the tool name, the
  parameters, each read by the code as \<open>string | undefined\<close>, and the active intent id
  carried by the caller. The decision (\<open>PreHookResult\<close>) has the optional fields
  \<open>error\<close> and \<open>injectedContext\<close>.
\<close>

record PreHookContext =
  toolName :: string
  params :: "string \<Rightarrow> string option"
  activeIntentId :: "string option"

record PreHookResult =
  allow :: bool
  error :: "string option"
  injectedContext :: "string option"

definition allowed :: PreHookResult where
  "allowed = \<lparr>allow = True, error = None, injectedContext = None\<rparr>"

definition denied :: "string \<Rightarrow> PreHookResult" where
  "denied msg = \<lparr>allow = False, error = Some msg, injectedContext = None\<rparr>"

text \<open>A template literal prints a missing value as \<open>undefined\<close>.\<close>

definition template :: "string option \<Rightarrow> string" where
  "template v = (case v of None \<Rightarrow> ''undefined'' | Some s \<Rightarrow> s)"

text \<open>\<open>(xs ?? []).join("\n    ") || placeholder\<close> (lines 151-153).\<close>

definition renderList :: "string list option \<Rightarrow> string \<Rightarrow> string" where
  "renderList xs placeholder =
     or_else (js_join [CHR 0x0A, CHR '' '', CHR '' '', CHR '' '', CHR '' '']
                (case xs of None \<Rightarrow> [] | Some ys \<Rightarrow> ys))
             placeholder"

definition injectedContextOf :: "intent \<Rightarrow> string" where
  "injectedContextOf intentData =
     (let scopeList = renderList (owned_scope intentData) ''Any'';
          constraintList = renderList (constraints intentData) ''None'';
          criteriaList = renderList (acceptance_criteria intentData) ''None''
      in js_join [CHR 0x0A]
           [''<intent_context>'',
            ''  <id>'' @ intent_id intentData @ ''</id>'',
            ''  <name>'' @ template (name intentData) @ ''</name>'',
            ''  <status>'' @ template (status intentData) @ ''</status>'',
            ''  <owned_scope>'',
            ''    '' @ scopeList,
            ''  </owned_scope>'',
            ''  <constraints>'',
            ''    '' @ constraintList,
            ''  </constraints>'',
            ''  <acceptance_criteria>'',
            ''    '' @ criteriaList,
            ''  </acceptance_criteria>'',
            ''</intent_context>''])"

text \<open>Phase 1 (lines 124-173): the call of \<open>select_active_intent\<close>.\<close>

definition notFoundError :: "string \<Rightarrow> string \<Rightarrow> string" where
  "notFoundError intentId ids =
     ''Intent '' @ [CHR 0x27] @ intentId @ [CHR 0x27]
     @ '' not found in .orchestration/active_intents.yaml. Available intent IDs: [''
     @ ids @ '']. Call select_active_intent again with one of those IDs.''"

definition selectActiveIntent :: "platform \<Rightarrow> world \<Rightarrow> PreHookContext \<Rightarrow> string \<Rightarrow> PreHookResult" where
  "selectActiveIntent P w context cwd =
     (case params context ''intent_id'' of
        None \<Rightarrow> denied ''Missing intent_id in select_active_intent parameters.''
      | Some intentId \<Rightarrow>
          if intentId = [] then denied ''Missing intent_id in select_active_intent parameters.''
          else (case getActiveIntent P w cwd intentId of
                  None \<Rightarrow>
                    denied (notFoundError intentId
                              (availableIds P w cwd ''unknown (could not read file)''))
                | Some intentData \<Rightarrow>
                    \<lparr>allow = True, error = None,
                     injectedContext = Some (injectedContextOf intentData)\<rparr>))"

text \<open>The tools the gatekeeper covers (lines 177-187).\<close>

definition mutatingTools :: "string list" where
  "mutatingTools =
     [''write_to_file'', ''edit_file'', ''search_replace'', ''apply_diff'',
      ''execute_command'', ''new_task'', ''edit'', ''search_and_replace'', ''apply_patch'']"

text \<open>Phase 2a (lines 190-213): the error when no intent is active.\<close>

definition noActiveIntentError :: "string \<Rightarrow> string" where
  "noActiveIntentError ids =
     ''No active intent is set. You MUST call select_active_intent before modifying any file. ''
     @ ''Available intent IDs: ['' @ ids @ '']. ''
     @ ''Do NOT switch modes. Call select_active_intent(intent_id) now, then retry.''"

text \<open>The default of Phase 2a; the dash of the source is U+2014, three bytes in UTF-8.\<close>

definition couldNotRead :: string where
  "couldNotRead =
     ''could not read '' @ [CHR 0xE2, CHR 0x80, CHR 0x94]
     @ '' try read_file('' @ [CHR 0x27] @ ''.orchestration/active_intents.yaml'' @ [CHR 0x27] @ '')''"

text \<open>The target path, by tool (lines 216-222); \<open>apply_patch\<close> and the others have none.\<close>

definition extractTargetPath :: "PreHookContext \<Rightarrow> string option" where
  "extractTargetPath context =
     (if toolName context = ''write_to_file'' \<or> toolName context = ''apply_diff''
      then params context ''path''
      else if toolName context \<in> set [''edit_file'', ''search_replace'', ''edit'', ''search_and_replace'']
      then params context ''file_path''
      else None)"

text \<open>
  Phase 2b (lines 228-241): the scope check. The result is the error of the denial,
  or \<open>None\<close> when the check passes or is skipped.
\<close>

definition scopeError :: "string \<Rightarrow> string \<Rightarrow> string list \<Rightarrow> string" where
  "scopeError activeId targetPath scope =
     ''Scope Violation: Intent '' @ [CHR 0x27] @ activeId @ [CHR 0x27]
     @ '' is not authorized to edit '' @ [CHR 0x27] @ targetPath @ [CHR 0x27] @ ''. ''
     @ ''Allowed scope: ['' @ js_join '', '' scope @ '']. Request scope expansion if needed.''"

definition scopeViolation :: "platform \<Rightarrow> intent option \<Rightarrow> string \<Rightarrow> string \<Rightarrow> string option" where
  "scopeViolation P intentData activeId targetPath =
     (case intentData of
        None \<Rightarrow> None
      | Some i \<Rightarrow>
          (case owned_scope i of
             None \<Rightarrow> None
           | Some scope \<Rightarrow>
               (let normalizedPath = replace_backslashes targetPath;
                    inScope = list_ex (\<lambda>glob. minimatch P normalizedPath glob) scope
                in if \<not> inScope then Some (scopeError activeId targetPath scope) else None)))"

text \<open>
  Phase 4 (lines 244-259): optimistic locking, for \<open>write_to_file\<close> only. The result is
  the error of the denial, or \<open>None\<close>.
\<close>

definition staleError :: "string \<Rightarrow> string \<Rightarrow> string \<Rightarrow> string" where
  "staleError targetPath knownHash diskHash =
     ''Stale File Conflict: The file '' @ [CHR 0x27] @ targetPath @ [CHR 0x27]
     @ '' has been modified since you last read it ''
     @ ''(your hash: '' @ slice0 8 knownHash @ ''..., disk hash: '' @ slice0 8 diskHash @ ''...). ''
     @ ''Re-read the file, incorporate the changes, then retry.''"

definition staleConflict :: "platform \<Rightarrow> world \<Rightarrow> PreHookContext \<Rightarrow> string \<Rightarrow> string \<Rightarrow> string option" where
  "staleConflict P w context cwd targetPath =
     (if toolName context = ''write_to_file'' then
        (case params context ''known_content_hash'' of
           None \<Rightarrow> None
         | Some knownHash \<Rightarrow>
             if knownHash = [] then None
             else
               (let absolutePath = (if path_isAbsolute P targetPath then targetPath
                                    else path_join P cwd targetPath)
                in case hashFileOnDisk P w absolutePath of
                     None \<Rightarrow> None
                   | Some diskHash \<Rightarrow>
                       if diskHash \<noteq> [] \<and> diskHash \<noteq> knownHash
                       then Some (staleError targetPath knownHash diskHash)
                       else None))
      else None)"

definition runPreHook :: "platform \<Rightarrow> world \<Rightarrow> PreHookContext \<Rightarrow> string \<Rightarrow> PreHookResult" where
  "runPreHook P w context cwd =
     (if registry_at w (getActiveIntentsPath P cwd) = Missing then allowed
      else if toolName context = ''select_active_intent'' then selectActiveIntent P w context cwd
      else if toolName context \<in> set mutatingTools then
        (case activeIntentId context of
           None \<Rightarrow> denied (noActiveIntentError (availableIds P w cwd couldNotRead))
         | Some activeId \<Rightarrow>
             if activeId = [] then denied (noActiveIntentError (availableIds P w cwd couldNotRead))
             else
               (case extractTargetPath context of
                  None \<Rightarrow> allowed
                | Some targetPath \<Rightarrow>
                    if targetPath = [] then allowed
                    else
                      (case scopeViolation P (getActiveIntent P w cwd activeId) activeId targetPath of
                         Some err \<Rightarrow> denied err
                       | None \<Rightarrow>
                           (case staleConflict P w context cwd targetPath of
                              Some err \<Rightarrow> denied err
                            | None \<Rightarrow> allowed))))
      else allowed)"

subsection \<open>JSON\<close>

text \<open>
  The values the post-hook serialises, and \<open>JSON.stringify\<close> on them: no white space,
  the members in the order of the object literal, strings quoted with the escapes of
  the standard (quote, backslash, and the control characters below U+0020).
\<close>

datatype json =
    JString string
  | JNumber nat
  | JArray "json list"
  | JObject "(string \<times> json) list"

fun show_nat :: "nat \<Rightarrow> string" where
  "show_nat n =
     (if n < 10 then [char_of (48 + n)]
      else show_nat (n div 10) @ [char_of (48 + n mod 10)])"

definition hex_digit :: "nat \<Rightarrow> char" where
  "hex_digit n = (if n < 10 then char_of (48 + n) else char_of (87 + n))"

definition json_escape :: "char \<Rightarrow> string" where
  "json_escape c =
     (if c = CHR 0x22 then [CHR 0x5C, CHR 0x22]
      else if c = CHR 0x5C then [CHR 0x5C, CHR 0x5C]
      else if c = CHR 0x08 then [CHR 0x5C, CHR ''b'']
      else if c = CHR 0x0C then [CHR 0x5C, CHR ''f'']
      else if c = CHR 0x0A then [CHR 0x5C, CHR ''n'']
      else if c = CHR 0x0D then [CHR 0x5C, CHR ''r'']
      else if c = CHR 0x09 then [CHR 0x5C, CHR ''t'']
      else if (of_char c :: nat) < 32
      then [CHR 0x5C, CHR ''u'', CHR ''0'', CHR ''0'',
            hex_digit ((of_char c :: nat) div 16), hex_digit ((of_char c :: nat) mod 16)]
      else [c])"

definition json_quote :: "string \<Rightarrow> string" where
  "json_quote s = [CHR 0x22] @ concat (map json_escape s) @ [CHR 0x22]"

fun JSON_stringify :: "json \<Rightarrow> string" where
  "JSON_stringify (JString s) = json_quote s"
| "JSON_stringify (JNumber n) = show_nat n"
| "JSON_stringify (JArray xs) = ''['' @ js_join '','' (map JSON_stringify xs) @ '']''"
| "JSON_stringify (JObject kvs) =
     ''{'' @ js_join '','' (map (\<lambda>kv. json_quote (fst kv) @ '':'' @ JSON_stringify (snd kv)) kvs) @ ''}''"

text \<open>Reading a member of an object and the first element of an array.\<close>

fun json_member :: "string \<Rightarrow> json \<Rightarrow> json option" where
  "json_member k (JObject kvs) = map_of kvs k"
| "json_member k _ = None"

fun json_first :: "json \<Rightarrow> json option" where
  "json_first (JArray (x # xs)) = Some x"
| "json_first _ = None"

subsection \<open>Writes\<close>

text \<open>
  The hooks write through \<open>fs.appendFile\<close> and \<open>fs.writeFile\<close>. A hook is modelled by the
  list of the writes it issues, in order; \<open>perform\<close> is the effect of a write that
  succeeds. A write that fails throws, the post-hook catches and logs it (lines 353-365),
  and the file system stays as it was.
\<close>

datatype fs_op = AppendFile string string | WriteFile string string

fun perform :: "world \<Rightarrow> fs_op \<Rightarrow> world" where
  "perform w (WriteFile p d) = w\<lparr>readFile := (readFile w)(p := Some d)\<rparr>"
| "perform w (AppendFile p d) =
     w\<lparr>readFile := (readFile w)(p := Some ((case readFile w p of None \<Rightarrow> [] | Some old \<Rightarrow> old) @ d))\<rparr>"

definition perform_all :: "world \<Rightarrow> fs_op list \<Rightarrow> world" where
  "perform_all w ops = foldl perform w ops"

subsection \<open>The spatial index: intent_map.md\<close>

definition intentMapHeader :: string where
  "intentMapHeader =
     ''# Intent Map'' @ [CHR 0x0A, CHR 0x0A]
     @ ''Maps business intents to physical files modified by the AI agent.'' @ [CHR 0x0A, CHR 0x0A]
     @ ''| Intent ID | Intent Name | File Path | Last Modified |'' @ [CHR 0x0A]
     @ ''|-----------|-------------|-----------|---------------|'' @ [CHR 0x0A]"

definition intentMapRow :: "string \<Rightarrow> string \<Rightarrow> string \<Rightarrow> string \<Rightarrow> string" where
  "intentMapRow intentId intentName filePath timestamp =
     ''| '' @ intentId @ '' | '' @ intentName @ '' | '' @ [CHR 0x60] @ filePath @ [CHR 0x60]
     @ '' | '' @ timestamp @ '' |'' @ [CHR 0x0A]"

text \<open>
  \<open>updateIntentMap\<close> (lines 86-105). \<open>timestamp\<close> is what
  \<open>new Date().toISOString()\<close> returns in this call (line 98).
\<close>

definition updateIntentMap ::
  "platform \<Rightarrow> world \<Rightarrow> string \<Rightarrow> string \<Rightarrow> string \<Rightarrow> string \<Rightarrow> string \<Rightarrow> fs_op list" where
  "updateIntentMap P w timestamp cwd intentId intentName filePath =
     (let mapPath = getIntentMapPath P cwd;
          existing = (case readFile w mapPath of Some content \<Rightarrow> content | None \<Rightarrow> intentMapHeader);
          row = intentMapRow intentId intentName filePath timestamp
      in if \<not> endsWith existing row then [WriteFile mapPath (existing @ row)] else [])"

subsection \<open>The post-hook\<close>

record PostHookContext = PreHookContext +
  mutationClass :: "string option"

text \<open>
  What one call of the post-hook takes from \<open>crypto.randomUUID()\<close> and from the clock:
  the UUID for a missing \<open>_sessionId\<close> (line 307), the id and the timestamp of the
  entry (lines 318-319), the timestamp of the index row (line 98).
\<close>

record drawn =
  session_uuid :: string
  entry_uuid :: string
  entry_time :: string
  row_time :: string

text \<open>The target path and the content, by tool (lines 278-290).\<close>

definition extractModification :: "PostHookContext \<Rightarrow> string option \<times> string option" where
  "extractModification context =
     (if toolName context = ''write_to_file''
      then (params context ''path'', params context ''content'')
      else if toolName context \<in> set [''edit_file'', ''search_replace'']
      then (params context ''file_path'', params context ''new_string'')
      else if toolName context = ''apply_diff''
      then (params context ''path'', params context ''diff'')
      else (None, None))"

text \<open>The trace entry (lines 295-350).\<close>

definition traceEntry ::
  "platform \<Rightarrow> world \<Rightarrow> drawn \<Rightarrow> PostHookContext \<Rightarrow> string \<Rightarrow> string \<Rightarrow> string \<Rightarrow> string \<Rightarrow> json" where
  "traceEntry P w d context cwd activeId targetPath contentModified =
     (let mutationCls = (case mutationClass context of None \<Rightarrow> ''INTENT_EVOLUTION'' | Some m \<Rightarrow> m);
          lines = split_on (CHR 0x0A) contentModified;
          startLine = 1;
          endLine = length lines;
          contentHash = sha256 P contentModified;
          modelIdentifier = (case params context ''_modelIdentifier'' of
                               None \<Rightarrow> ''unknown-model'' | Some m \<Rightarrow> m);
          sessionLogId = (case params context ''_sessionId'' of
                            None \<Rightarrow> session_uuid d | Some s \<Rightarrow> s);
          revisionId = getGitSha w cwd
      in JObject
           [(''id'', JString (entry_uuid d)),
            (''timestamp'', JString (entry_time d)),
            (''vcs'', JObject [(''revision_id'', JString revisionId)]),
            (''intent_id'', JString activeId),
            (''mutation_class'', JString mutationCls),
            (''files'', JArray
               [JObject
                  [(''relative_path'', JString targetPath),
                   (''conversations'', JArray
                      [JObject
                         [(''url'', JString sessionLogId),
                          (''contributor'', JObject
                             [(''entity_type'', JString ''AI''),
                              (''model_identifier'', JString modelIdentifier)]),
                          (''ranges'', JArray
                             [JObject
                                [(''start_line'', JNumber startLine),
                                 (''end_line'', JNumber endLine),
                                 (''content_hash'', JString (''sha256:'' @ contentHash))]]),
                          (''related'', JArray
                             [JObject
                                [(''type'', JString ''specification''),
                                 (''value'', JString activeId)]])]])]])])"

text \<open>
  \<open>runPostHook\<close> (lines 268-366): the writes it issues. The index is updated after
  the append, so \<open>updateIntentMap\<close> reads the file system the append leaves.
\<close>

definition runPostHook :: "platform \<Rightarrow> world \<Rightarrow> drawn \<Rightarrow> PostHookContext \<Rightarrow> string \<Rightarrow> fs_op list" where
  "runPostHook P w d context cwd =
     (case activeIntentId context of
        None \<Rightarrow> []
      | Some activeId \<Rightarrow>
          if activeId = [] then []
          else if registry_at w (getActiveIntentsPath P cwd) = Missing then []
          else
            (case extractModification context of
               (Some targetPath, Some contentModified) \<Rightarrow>
                 if targetPath = [] \<or> contentModified = [] then []
                 else
                   (let entry = traceEntry P w d context cwd activeId targetPath contentModified;
                        intentName = (case getActiveIntent P w cwd activeId of
                                        None \<Rightarrow> activeId
                                      | Some intentData \<Rightarrow>
                                          (case name intentData of None \<Rightarrow> activeId | Some n \<Rightarrow> n));
                        append = AppendFile (getAgentTracePath P cwd) (JSON_stringify entry @ [CHR 0x0A])
                    in append # updateIntentMap P (perform w append) (row_time d) cwd
                                  activeId intentName targetPath)
             | _ \<Rightarrow> []))"

text \<open>
  The content range of an entry: \<open>files[0].conversations[0].ranges[0]\<close>.
\<close>

definition contentRange :: "json \<Rightarrow> json option" where
  "contentRange entry =
     Option.bind (json_member ''files'' entry) (\<lambda>files.
     Option.bind (json_first files) (\<lambda>file.
     Option.bind (json_member ''conversations'' file) (\<lambda>conversations.
     Option.bind (json_first conversations) (\<lambda>conversation.
     Option.bind (json_member ''ranges'' conversation) json_first))))"

subsection \<open>An instance of the parameters\<close>

text \<open>
  Modelled from the spec: the glob matcher is the package \<open>minimatch\<close>, which is not
  part of the repository. The spec (4.3) describes it as glob-style matching in which a
  pattern may match on the base name alone and dotfiles are not excluded. The model
  interprets \<open>?\<close> (one character), \<open>*\<close> (any run of characters within a segment) and
  \<open>**\<close> (any run of segments); every other character stands for itself. A pattern
  without a slash is matched against the last segment of the path.
\<close>

fun glob_segment :: "string \<Rightarrow> string \<Rightarrow> bool" where
  "glob_segment [] s = (s = [])"
| "glob_segment (p # ps) s =
     (if p = CHR ''*''
      then glob_segment ps s \<or> (case s of [] \<Rightarrow> False | c # cs \<Rightarrow> glob_segment (p # ps) cs)
      else (case s of [] \<Rightarrow> False | c # cs \<Rightarrow> (p = CHR ''?'' \<or> p = c) \<and> glob_segment ps cs))"

fun glob_segments :: "string list \<Rightarrow> string list \<Rightarrow> bool" where
  "glob_segments [] fs = (fs = [])"
| "glob_segments (p # ps) fs =
     (if p = ''**''
      then glob_segments ps fs \<or> (case fs of [] \<Rightarrow> False | f # fs' \<Rightarrow> glob_segments (p # ps) fs')
      else (case fs of [] \<Rightarrow> False | f # fs' \<Rightarrow> glob_segment p f \<and> glob_segments ps fs'))"

definition glob_match :: "string \<Rightarrow> string \<Rightarrow> bool" where
  "glob_match path glob =
     (if CHR ''/'' \<in> set glob
      then glob_segments (split_on (CHR ''/'') glob) (split_on (CHR ''/'') path)
      else glob_segment glob (last (split_on (CHR ''/'') path)))"

text \<open>
  The platform on which the theorems below are exercised: paths joined with a slash,
  absolute when they start with one, the glob matcher above, and a digest that only
  stands for SHA-256 (the theorems hold for every digest function).
\<close>

definition sample_platform :: platform where
  "sample_platform =
     \<lparr>path_join = (\<lambda>a b. a @ ''/'' @ b),
      path_isAbsolute = (\<lambda>p. case p of [] \<Rightarrow> False | c # cs \<Rightarrow> c = CHR ''/''),
      sha256 = (\<lambda>content. ''5ha256-'' @ content),
      minimatch = glob_match\<rparr>"

definition sample_intents :: "intent list" where
  "sample_intents =
     [\<lparr>intent_id = ''INT-001'', name = Some ''Foo module'', status = Some ''IN_PROGRESS'',
       owned_scope = Some [''src/foo/**''], constraints = Some [''Keep the API''],
       acceptance_criteria = Some [''Tests pass'']\<rparr>,
      \<lparr>intent_id = ''INT-002'', name = Some ''Housekeeping'', status = Some ''IN_PROGRESS'',
       owned_scope = Some [], constraints = None, acceptance_criteria = None\<rparr>]"

text \<open>
  A workspace \<open>/ws\<close> with that registry, one source file, no index yet and no
  repository; and the same workspace without the registry.
\<close>

definition sample_world :: world where
  "sample_world =
     \<lparr>registry_at = (\<lambda>p. if p = ''/ws/.orchestration/active_intents.yaml''
                           then Registry sample_intents else Missing),
      readFile = (\<lambda>p. if p = ''/ws/src/foo/bar.ts'' then Some ''export {}'' else None),
      git_rev_parse = (\<lambda>cwd. None)\<rparr>"

definition plain_world :: world where
  "plain_world =
     \<lparr>registry_at = (\<lambda>p. Missing),
      readFile = (\<lambda>p. if p = ''/ws/src/foo/bar.ts'' then Some ''export {}'' else None),
      git_rev_parse = (\<lambda>cwd. if cwd = ''/ws'' then Some (''0123abc'' @ [CHR 0x0A]) else None)\<rparr>"

text \<open>What one call of the post-hook draws from the UUID generator and the clock.\<close>

definition sample_drawn :: drawn where
  "sample_drawn =
     \<lparr>session_uuid = ''11111111-1111-4111-8111-111111111111'',
      entry_uuid = ''22222222-2222-4222-8222-222222222222'',
      entry_time = ''2026-01-01T00:00:00.000Z'',
      row_time = ''2026-01-01T00:00:00.002Z''\<rparr>"

section \<open>Properties\<close>

subsection \<open>The revision resolver\<close>

text \<open>
  C9. The revision query never raises an error: \<open>getGitSha\<close> is a total function that
  returns a string on every outcome of the child process. When the command succeeds the
  result is its trimmed output; when it throws (no repository, no git, timeout) the
  result is the fixed, non-empty sentinel \<open>no-git\<close>.
\<close>

theorem getGitSha_never_raises:
  "(git_rev_parse w cwd = None \<longrightarrow> getGitSha w cwd = ''no-git'' \<and> getGitSha w cwd \<noteq> [])
   \<and> (\<forall>out. git_rev_parse w cwd = Some out \<longrightarrow> getGitSha w cwd = trim out)"
  by (simp add: getGitSha_def)

theorem getGitSha_never_raises_witness:
  "git_rev_parse sample_world ''/ws'' = None
   \<and> getGitSha sample_world ''/ws'' = ''no-git''
   \<and> git_rev_parse plain_world ''/ws'' = Some (''0123abc'' @ [CHR 0x0A])
   \<and> getGitSha plain_world ''/ws'' = ''0123abc''"
  using getGitSha_never_raises [of sample_world "''/ws''"]
        getGitSha_never_raises [of plain_world "''/ws''"]
  by (simp add: sample_world_def plain_world_def trim_def is_space_def)

subsection \<open>The opt-in guard\<close>

text \<open>
  C5. When the registry file does not exist under the workspace root, \<open>runPreHook\<close>
  returns \<open>allow = true\<close> with no error and no injected context, for every tool name,
  every parameter map and every active intent id. The pre-hook issues no write at all:
  the source calls only \<open>fs.access\<close> and \<open>fs.readFile\<close>, so the model is a function from
  the snapshot to the decision.
\<close>

theorem runPreHook_no_registry:
  "registry_at w (getActiveIntentsPath P cwd) = Missing \<Longrightarrow>
   runPreHook P w context cwd = \<lparr>allow = True, error = None, injectedContext = None\<rparr>"
  by (simp add: runPreHook_def allowed_def)

theorem runPreHook_no_registry_witness:
  "registry_at plain_world (getActiveIntentsPath sample_platform ''/ws'') = Missing
   \<and> runPreHook sample_platform plain_world
        \<lparr>toolName = ''write_to_file'',
         params = [''path'' \<mapsto> ''src/foo/bar.ts'', ''content'' \<mapsto> ''x''],
         activeIntentId = None\<rparr> ''/ws''
       = \<lparr>allow = True, error = None, injectedContext = None\<rparr>"
  using runPreHook_no_registry [of plain_world sample_platform "''/ws''"]
  by (simp add: plain_world_def)

subsection \<open>Facts about the pre-hook\<close>

lemma getActiveIntent_None_iff:
  "getActiveIntent P w cwd a = None \<longleftrightarrow>
     (case registry_at w (getActiveIntentsPath P cwd) of
        Registry is \<Rightarrow> a \<notin> set (map intent_id is)
      | _ \<Rightarrow> True)"
  by (auto simp: getActiveIntent_def find_None_iff split: registry.splits)

lemma staleConflict_other_tool:
  "toolName context \<noteq> ''write_to_file'' \<Longrightarrow> staleConflict P w context cwd targetPath = None"
  by (simp add: staleConflict_def)

text \<open>
  A mutating call with an active intent and a target path goes through the scope check
  and then through the lock check.
\<close>

lemma runPreHook_mutating:
  assumes "registry_at w (getActiveIntentsPath P cwd) \<noteq> Missing"
    and "toolName context \<in> set mutatingTools"
    and "activeIntentId context = Some activeId" and "activeId \<noteq> []"
    and "extractTargetPath context = Some targetPath" and "targetPath \<noteq> []"
  shows "runPreHook P w context cwd =
           (case scopeViolation P (getActiveIntent P w cwd activeId) activeId targetPath of
              Some err \<Rightarrow> denied err
            | None \<Rightarrow>
                (case staleConflict P w context cwd targetPath of
                   Some err \<Rightarrow> denied err
                 | None \<Rightarrow> allowed))"
proof -
  from assms(2) have "toolName context \<noteq> ''select_active_intent''"
    by (auto simp: mutatingTools_def)
  with assms show ?thesis by (simp add: runPreHook_def)
qed

lemma sample_registry:
  "registry_at sample_world (getActiveIntentsPath sample_platform ''/ws'') = Registry sample_intents"
  by (simp add: sample_world_def sample_platform_def getActiveIntentsPath_def
        getOrchestrationDir_def)

subsection \<open>The intent handshake\<close>

text \<open>
  C4. With the gate enabled, a call of any tool of the mutating set (\<open>write_to_file\<close>,
  \<open>edit_file\<close>, \<open>search_replace\<close>, \<open>apply_diff\<close>, \<open>execute_command\<close>, \<open>new_task\<close>,
  \<open>edit\<close>, \<open>search_and_replace\<close>, \<open>apply_patch\<close>) that carries no active intent id
  (none, or the empty string, which JavaScript treats alike) is denied, whatever its
  parameters are. The error tells the caller to call \<open>select_active_intent\<close> and lists
  the available ids.
\<close>

theorem mutating_tool_without_intent_denied:
  assumes "registry_at w (getActiveIntentsPath P cwd) \<noteq> Missing"
    and "toolName context \<in> {''write_to_file'', ''edit_file'', ''search_replace'', ''apply_diff'',
           ''execute_command'', ''new_task'', ''edit'', ''search_and_replace'', ''apply_patch''}"
    and "\<not> truthy (activeIntentId context)"
  shows "runPreHook P w context cwd =
           \<lparr>allow = False,
            error = Some (''No active intent is set. You MUST call select_active_intent before modifying any file. Available intent IDs: [''
                          @ availableIds P w cwd couldNotRead
                          @ '']. Do NOT switch modes. Call select_active_intent(intent_id) now, then retry.''),
            injectedContext = None\<rparr>"
proof -
  from assms(2) have sel: "toolName context \<noteq> ''select_active_intent''"
    and mut: "toolName context \<in> set mutatingTools"
    by (auto simp: mutatingTools_def)
  from assms(3) have "activeIntentId context = None \<or> activeIntentId context = Some []"
    by (auto simp: truthy_def split: option.splits)
  then show ?thesis
    using assms(1) sel mut
    by (auto simp: runPreHook_def denied_def noActiveIntentError_def)
qed

theorem mutating_tool_without_intent_denied_witness:
  "registry_at sample_world (getActiveIntentsPath sample_platform ''/ws'') \<noteq> Missing
   \<and> \<not> truthy None
   \<and> runPreHook sample_platform sample_world
        \<lparr>toolName = ''apply_patch'', params = [''patch'' \<mapsto> ''*** Begin Patch''],
         activeIntentId = None\<rparr> ''/ws''
       = \<lparr>allow = False,
          error = Some ''No active intent is set. You MUST call select_active_intent before modifying any file. Available intent IDs: [INT-001, INT-002]. Do NOT switch modes. Call select_active_intent(intent_id) now, then retry.'',
          injectedContext = None\<rparr>"
proof -
  let ?c = "\<lparr>toolName = ''apply_patch'', params = [''patch'' \<mapsto> ''*** Begin Patch''],
             activeIntentId = None\<rparr>"
  have gate: "registry_at sample_world (getActiveIntentsPath sample_platform ''/ws'') \<noteq> Missing"
    by (simp add: sample_registry)
  have tool: "toolName ?c \<in> {''write_to_file'', ''edit_file'', ''search_replace'', ''apply_diff'',
           ''execute_command'', ''new_task'', ''edit'', ''search_and_replace'', ''apply_patch''}"
    by simp
  have none: "\<not> truthy (activeIntentId ?c)"
    by (simp add: truthy_def)
  have ids: "availableIds sample_platform sample_world ''/ws'' couldNotRead = ''INT-001, INT-002''"
    by (simp add: availableIds_def sample_registry sample_intents_def or_else_def)
  from mutating_tool_without_intent_denied [OF gate tool none] ids gate
  show ?thesis by (simp add: truthy_def)
qed

text \<open>
  C8. With the gate enabled, a call of \<open>select_active_intent\<close> with a non-empty
  \<open>intent_id\<close> that no record of the registry carries is denied. The list of ids in
  the error is the ids of all records of the registry in their order, joined by
  \<open>", "\<close> (\<open>none\<close> when that text is empty); when the registry cannot be read or has
  not the expected shape, it is the note \<open>unknown (could not read file)\<close>.
\<close>

theorem select_unknown_intent_denied:
  assumes "registry_at w (getActiveIntentsPath P cwd) = r"
    and "r \<noteq> Missing"
    and "toolName context = ''select_active_intent''"
    and "params context ''intent_id'' = Some intentId"
    and "intentId \<noteq> []"
    and "\<forall>is. r = Registry is \<longrightarrow> intentId \<notin> set (map intent_id is)"
  shows "runPreHook P w context cwd =
           \<lparr>allow = False,
            error = Some (''Intent '' @ [CHR 0x27] @ intentId @ [CHR 0x27]
                          @ '' not found in .orchestration/active_intents.yaml. Available intent IDs: [''
                          @ (case r of
                               Registry is \<Rightarrow>
                                 (if js_join '', '' (map intent_id is) = [] then ''none''
                                  else js_join '', '' (map intent_id is))
                             | _ \<Rightarrow> ''unknown (could not read file)'')
                          @ '']. Call select_active_intent again with one of those IDs.''),
            injectedContext = None\<rparr>"
proof -
  have nf: "getActiveIntent P w cwd intentId = None"
    using assms(1,6) by (auto simp: getActiveIntent_None_iff split: registry.splits)
  show ?thesis
    using assms(1-5) nf
    by (cases r)
       (simp_all add: runPreHook_def selectActiveIntent_def denied_def notFoundError_def
          availableIds_def or_else_def)
qed

theorem select_unknown_intent_denied_witness:
  "registry_at sample_world (getActiveIntentsPath sample_platform ''/ws'') = Registry sample_intents
   \<and> ''INT-404'' \<notin> set (map intent_id sample_intents)
   \<and> runPreHook sample_platform sample_world
        \<lparr>toolName = ''select_active_intent'', params = [''intent_id'' \<mapsto> ''INT-404''],
         activeIntentId = None\<rparr> ''/ws''
       = \<lparr>allow = False,
          error = Some (''Intent '' @ [CHR 0x27] @ ''INT-404'' @ [CHR 0x27] @ '' not found in .orchestration/active_intents.yaml. Available intent IDs: [INT-001, INT-002]. Call select_active_intent again with one of those IDs.''),
          injectedContext = None\<rparr>"
proof -
  let ?c = "\<lparr>toolName = ''select_active_intent'', params = [''intent_id'' \<mapsto> ''INT-404''],
             activeIntentId = None\<rparr>"
  have absent: "''INT-404'' \<notin> set (map intent_id sample_intents)"
    by (simp add: sample_intents_def)
  then have absent': "\<forall>is. Registry sample_intents = Registry is \<longrightarrow>
                        ''INT-404'' \<notin> set (map intent_id is)"
    by simp
  have ids: "js_join '', '' (map intent_id sample_intents) = ''INT-001, INT-002''"
    by (simp add: sample_intents_def)
  from select_unknown_intent_denied [OF sample_registry _ _ _ _ absent', of ?c] ids
  have "runPreHook sample_platform sample_world ?c ''/ws''
       = \<lparr>allow = False,
          error = Some (''Intent '' @ [CHR 0x27] @ ''INT-404'' @ [CHR 0x27] @ '' not found in .orchestration/active_intents.yaml. Available intent IDs: [INT-001, INT-002]. Call select_active_intent again with one of those IDs.''),
          injectedContext = None\<rparr>"
    by simp
  with sample_registry absent show ?thesis by simp
qed

subsection \<open>An active intent that does not resolve\<close>

text \<open>
  C10. A call of a mutating tool with an active intent id and a target path, where the
  id resolves to no record (the registry cannot be read, has not the expected shape, or
  holds no record with that id), skips the scope check: the decision is that of the lock
  check alone, so the call is allowed unless \<open>write_to_file\<close> meets a stale hash. For
  every other tool the call is allowed.
\<close>

theorem unresolved_intent_skips_scope:
  assumes "registry_at w (getActiveIntentsPath P cwd) = r"
    and "r = Unreadable \<or> r = Malformed
         \<or> (\<exists>is. r = Registry is \<and> activeId \<notin> set (map intent_id is))"
    and "toolName context \<in> {''write_to_file'', ''edit_file'', ''search_replace'', ''apply_diff'',
           ''execute_command'', ''new_task'', ''edit'', ''search_and_replace'', ''apply_patch''}"
    and "activeIntentId context = Some activeId" and "activeId \<noteq> []"
    and "extractTargetPath context = Some targetPath" and "targetPath \<noteq> []"
  shows "runPreHook P w context cwd =
           (case staleConflict P w context cwd targetPath of
              Some err \<Rightarrow> \<lparr>allow = False, error = Some err, injectedContext = None\<rparr>
            | None \<Rightarrow> \<lparr>allow = True, error = None, injectedContext = None\<rparr>)
         \<and> (toolName context \<noteq> ''write_to_file'' \<longrightarrow>
              runPreHook P w context cwd = \<lparr>allow = True, error = None, injectedContext = None\<rparr>)"
proof -
  from assms(1,2) have gate: "registry_at w (getActiveIntentsPath P cwd) \<noteq> Missing"
    by auto
  from assms(1,2) have "getActiveIntent P w cwd activeId = None"
    by (auto simp: getActiveIntent_None_iff)
  then have sv: "scopeViolation P (getActiveIntent P w cwd activeId) activeId targetPath = None"
    by (simp add: scopeViolation_def)
  from assms(3) have mut: "toolName context \<in> set mutatingTools"
    by (simp add: mutatingTools_def)
  have run: "runPreHook P w context cwd =
               (case staleConflict P w context cwd targetPath of
                  Some err \<Rightarrow> denied err | None \<Rightarrow> allowed)"
    using runPreHook_mutating [OF gate mut assms(4-7)] sv by simp
  then show ?thesis
    by (auto simp: denied_def allowed_def staleConflict_other_tool split: option.splits)
qed

theorem unresolved_intent_skips_scope_witness:
  "registry_at sample_world (getActiveIntentsPath sample_platform ''/ws'') = Registry sample_intents
   \<and> ''INT-404'' \<notin> set (map intent_id sample_intents)
   \<and> runPreHook sample_platform sample_world
        \<lparr>toolName = ''edit_file'', params = [''file_path'' \<mapsto> ''docs/readme.md''],
         activeIntentId = Some ''INT-404''\<rparr> ''/ws''
       = \<lparr>allow = True, error = None, injectedContext = None\<rparr>"
proof -
  let ?c = "\<lparr>toolName = ''edit_file'', params = [''file_path'' \<mapsto> ''docs/readme.md''],
             activeIntentId = Some ''INT-404''\<rparr>"
  have absent: "''INT-404'' \<notin> set (map intent_id sample_intents)"
    by (simp add: sample_intents_def)
  then have cause: "Registry sample_intents = Unreadable \<or> Registry sample_intents = Malformed
         \<or> (\<exists>is. Registry sample_intents = Registry is \<and> ''INT-404'' \<notin> set (map intent_id is))"
    by simp
  have tool: "toolName ?c \<in> {''write_to_file'', ''edit_file'', ''search_replace'', ''apply_diff'',
           ''execute_command'', ''new_task'', ''edit'', ''search_and_replace'', ''apply_patch''}"
    by simp
  have target: "extractTargetPath ?c = Some ''docs/readme.md''"
    by (simp add: extractTargetPath_def)
  from unresolved_intent_skips_scope [OF sample_registry cause tool _ _ target, THEN conjunct2]
  have "runPreHook sample_platform sample_world ?c ''/ws''
          = \<lparr>allow = True, error = None, injectedContext = None\<rparr>"
    by simp
  with sample_registry absent show ?thesis by simp
qed

subsection \<open>Scope enforcement\<close>

lemma list_ex_bex: "list_ex Q xs = (\<exists>x\<in>set xs. Q x)"
  by (simp add: list_ex_iff)

lemma sample_INT_001:
  "getActiveIntent sample_platform sample_world ''/ws'' ''INT-001''
     = Some \<lparr>intent_id = ''INT-001'', name = Some ''Foo module'', status = Some ''IN_PROGRESS'',
             owned_scope = Some [''src/foo/**''], constraints = Some [''Keep the API''],
             acceptance_criteria = Some [''Tests pass'']\<rparr>"
  by (simp add: getActiveIntent_def sample_registry sample_intents_def)

lemma sample_glob_inside: "minimatch sample_platform ''src/foo/bar.ts'' ''src/foo/**''"
  by (simp add: sample_platform_def glob_match_def)

lemma sample_glob_outside: "\<not> minimatch sample_platform ''src/bar.ts'' ''src/foo/**''"
  by (simp add: sample_platform_def glob_match_def)

text \<open>
  C7. For a call of a mutating tool with an active intent and a target path, where the
  intent resolves to a record with a non-empty \<open>owned_scope\<close>: the path, with every
  backslash turned into a slash, is in scope if and only if at least one pattern of the
  list matches it. In scope, the decision is left to the lock check; out of scope, the
  call is denied with an error that names the intent and the path and prints the
  patterns joined by \<open>", "\<close>. This holds for every matcher. With the glob matcher
  of the spec and \<open>owned_scope = ["src/foo/**"]\<close>, a call on \<open>src/foo/bar.ts\<close> is
  allowed and a call on \<open>src/bar.ts\<close> is denied with \<open>Allowed scope: [src/foo/**]\<close>
  in the error.
\<close>

theorem scope_matches_any_pattern:
  "(\<forall>P w context cwd activeId targetPath i scope.
      registry_at w (getActiveIntentsPath P cwd) \<noteq> Missing
      \<and> toolName context \<in> {''write_to_file'', ''edit_file'', ''search_replace'', ''apply_diff'',
            ''execute_command'', ''new_task'', ''edit'', ''search_and_replace'', ''apply_patch''}
      \<and> activeIntentId context = Some activeId \<and> activeId \<noteq> []
      \<and> extractTargetPath context = Some targetPath \<and> targetPath \<noteq> []
      \<and> getActiveIntent P w cwd activeId = Some i
      \<and> owned_scope i = Some scope \<and> scope \<noteq> []
      \<longrightarrow>
        ((\<exists>glob \<in> set scope. minimatch P (replace_backslashes targetPath) glob) \<longrightarrow>
           runPreHook P w context cwd =
             (case staleConflict P w context cwd targetPath of
                Some err \<Rightarrow> \<lparr>allow = False, error = Some err, injectedContext = None\<rparr>
              | None \<Rightarrow> \<lparr>allow = True, error = None, injectedContext = None\<rparr>))
        \<and> (\<not> (\<exists>glob \<in> set scope. minimatch P (replace_backslashes targetPath) glob) \<longrightarrow>
           runPreHook P w context cwd =
             \<lparr>allow = False,
              error = Some (''Scope Violation: Intent '' @ [CHR 0x27] @ activeId @ [CHR 0x27]
                            @ '' is not authorized to edit '' @ [CHR 0x27] @ targetPath @ [CHR 0x27]
                            @ ''. Allowed scope: ['' @ js_join '', '' scope
                            @ '']. Request scope expansion if needed.''),
              injectedContext = None\<rparr>))
   \<and> runPreHook sample_platform sample_world
        \<lparr>toolName = ''write_to_file'', params = [''path'' \<mapsto> ''src/foo/bar.ts''],
         activeIntentId = Some ''INT-001''\<rparr> ''/ws''
       = \<lparr>allow = True, error = None, injectedContext = None\<rparr>
   \<and> runPreHook sample_platform sample_world
        \<lparr>toolName = ''write_to_file'', params = [''path'' \<mapsto> ''src/bar.ts''],
         activeIntentId = Some ''INT-001''\<rparr> ''/ws''
       = \<lparr>allow = False,
          error = Some (''Scope Violation: Intent '' @ [CHR 0x27] @ ''INT-001'' @ [CHR 0x27]
                        @ '' is not authorized to edit '' @ [CHR 0x27] @ ''src/bar.ts'' @ [CHR 0x27]
                        @ ''. Allowed scope: [src/foo/**]. Request scope expansion if needed.''),
          injectedContext = None\<rparr>"
proof (intro conjI allI impI)
  fix P w and ctx :: PreHookContext and cwd activeId targetPath and i :: intent and scope
  assume h: "registry_at w (getActiveIntentsPath P cwd) \<noteq> Missing
      \<and> toolName ctx \<in> {''write_to_file'', ''edit_file'', ''search_replace'', ''apply_diff'',
            ''execute_command'', ''new_task'', ''edit'', ''search_and_replace'', ''apply_patch''}
      \<and> activeIntentId ctx = Some activeId \<and> activeId \<noteq> []
      \<and> extractTargetPath ctx = Some targetPath \<and> targetPath \<noteq> []
      \<and> getActiveIntent P w cwd activeId = Some i
      \<and> owned_scope i = Some scope \<and> scope \<noteq> []"
  then have mut: "toolName ctx \<in> set mutatingTools"
    by (simp add: mutatingTools_def)
  from h have run: "runPreHook P w ctx cwd =
           (case scopeViolation P (Some i) activeId targetPath of
              Some err \<Rightarrow> denied err
            | None \<Rightarrow>
                (case staleConflict P w ctx cwd targetPath of
                   Some err \<Rightarrow> denied err
                 | None \<Rightarrow> allowed))"
    using runPreHook_mutating [OF _ mut, of w P cwd activeId targetPath] by simp
  {
    assume "\<exists>glob \<in> set scope. minimatch P (replace_backslashes targetPath) glob"
    then have "scopeViolation P (Some i) activeId targetPath = None"
      using h by (simp add: scopeViolation_def list_ex_bex)
    with run show "runPreHook P w ctx cwd =
             (case staleConflict P w ctx cwd targetPath of
                Some err \<Rightarrow> \<lparr>allow = False, error = Some err, injectedContext = None\<rparr>
              | None \<Rightarrow> \<lparr>allow = True, error = None, injectedContext = None\<rparr>)"
      by (simp add: denied_def allowed_def split: option.splits)
  }
  {
    assume "\<not> (\<exists>glob \<in> set scope. minimatch P (replace_backslashes targetPath) glob)"
    then have "scopeViolation P (Some i) activeId targetPath
                 = Some (scopeError activeId targetPath scope)"
      using h by (simp add: scopeViolation_def list_ex_bex)
    with run show "runPreHook P w ctx cwd =
             \<lparr>allow = False,
              error = Some (''Scope Violation: Intent '' @ [CHR 0x27] @ activeId @ [CHR 0x27]
                            @ '' is not authorized to edit '' @ [CHR 0x27] @ targetPath @ [CHR 0x27]
                            @ ''. Allowed scope: ['' @ js_join '', '' scope
                            @ '']. Request scope expansion if needed.''),
              injectedContext = None\<rparr>"
      by (simp add: denied_def scopeError_def)
  }
next
  show "runPreHook sample_platform sample_world
        \<lparr>toolName = ''write_to_file'', params = [''path'' \<mapsto> ''src/foo/bar.ts''],
         activeIntentId = Some ''INT-001''\<rparr> ''/ws''
       = \<lparr>allow = True, error = None, injectedContext = None\<rparr>"
    by (simp add: runPreHook_def sample_registry mutatingTools_def extractTargetPath_def
          sample_INT_001 scopeViolation_def staleConflict_def replace_backslashes_def
          sample_glob_inside allowed_def)
next
  show "runPreHook sample_platform sample_world
        \<lparr>toolName = ''write_to_file'', params = [''path'' \<mapsto> ''src/bar.ts''],
         activeIntentId = Some ''INT-001''\<rparr> ''/ws''
       = \<lparr>allow = False,
          error = Some (''Scope Violation: Intent '' @ [CHR 0x27] @ ''INT-001'' @ [CHR 0x27]
                        @ '' is not authorized to edit '' @ [CHR 0x27] @ ''src/bar.ts'' @ [CHR 0x27]
                        @ ''. Allowed scope: [src/foo/**]. Request scope expansion if needed.''),
          injectedContext = None\<rparr>"
    by (simp add: runPreHook_def sample_registry mutatingTools_def extractTargetPath_def
          sample_INT_001 scopeViolation_def staleConflict_def replace_backslashes_def
          sample_glob_outside denied_def scopeError_def)
qed


theorem scope_matches_any_pattern_witness:
  "getActiveIntent sample_platform sample_world ''/ws'' ''INT-001'' \<noteq> None
   \<and> (\<exists>glob \<in> set [''src/foo/**''].
         minimatch sample_platform (replace_backslashes (''src'' @ [CHR 0x5C] @ ''foo'' @ [CHR 0x5C] @ ''x.ts'')) glob)
   \<and> runPreHook sample_platform sample_world
        \<lparr>toolName = ''edit_file'',
         params = [''file_path'' \<mapsto> ''src'' @ [CHR 0x5C] @ ''foo'' @ [CHR 0x5C] @ ''x.ts''],
         activeIntentId = Some ''INT-001''\<rparr> ''/ws''
       = \<lparr>allow = True, error = None, injectedContext = None\<rparr>
   \<and> \<not> (\<exists>glob \<in> set [''src/foo/**'']. minimatch sample_platform (replace_backslashes ''docs/readme.md'') glob)
   \<and> runPreHook sample_platform sample_world
        \<lparr>toolName = ''edit_file'', params = [''file_path'' \<mapsto> ''docs/readme.md''],
         activeIntentId = Some ''INT-001''\<rparr> ''/ws''
       = \<lparr>allow = False,
          error = Some (''Scope Violation: Intent '' @ [CHR 0x27] @ ''INT-001'' @ [CHR 0x27]
                        @ '' is not authorized to edit '' @ [CHR 0x27] @ ''docs/readme.md'' @ [CHR 0x27]
                        @ ''. Allowed scope: [src/foo/**]. Request scope expansion if needed.''),
          injectedContext = None\<rparr>"
proof -
  let ?p = "''src'' @ [CHR 0x5C] @ ''foo'' @ [CHR 0x5C] @ ''x.ts''"
  let ?c = "\<lparr>toolName = ''edit_file'', params = [''file_path'' \<mapsto> ?p],
             activeIntentId = Some ''INT-001''\<rparr>"
  let ?i = "\<lparr>intent_id = ''INT-001'', name = Some ''Foo module'', status = Some ''IN_PROGRESS'',
             owned_scope = Some [''src/foo/**''], constraints = Some [''Keep the API''],
             acceptance_criteria = Some [''Tests pass'']\<rparr>"
  have inside: "\<exists>glob \<in> set [''src/foo/**'']. minimatch sample_platform (replace_backslashes ?p) glob"
    by (simp add: replace_backslashes_def sample_platform_def glob_match_def)
  have hyps: "registry_at sample_world (getActiveIntentsPath sample_platform ''/ws'') \<noteq> Missing
      \<and> toolName ?c \<in> {''write_to_file'', ''edit_file'', ''search_replace'', ''apply_diff'',
            ''execute_command'', ''new_task'', ''edit'', ''search_and_replace'', ''apply_patch''}
      \<and> activeIntentId ?c = Some ''INT-001'' \<and> ''INT-001'' \<noteq> []
      \<and> extractTargetPath ?c = Some ?p \<and> ?p \<noteq> []
      \<and> getActiveIntent sample_platform sample_world ''/ws'' ''INT-001'' = Some ?i
      \<and> owned_scope ?i = Some [''src/foo/**''] \<and> [''src/foo/**''] \<noteq> []"
    by (simp add: sample_registry sample_INT_001 extractTargetPath_def)
  from scope_matches_any_pattern [THEN conjunct1, rule_format, OF hyps, THEN conjunct1, THEN mp, OF inside]
  have allowed_inside: "runPreHook sample_platform sample_world ?c ''/ws''
          = \<lparr>allow = True, error = None, injectedContext = None\<rparr>"
    by (simp add: staleConflict_def)
  let ?c' = "\<lparr>toolName = ''edit_file'', params = [''file_path'' \<mapsto> ''docs/readme.md''],
              activeIntentId = Some ''INT-001''\<rparr>"
  have outside: "\<not> (\<exists>glob \<in> set [''src/foo/**''].
                      minimatch sample_platform (replace_backslashes ''docs/readme.md'') glob)"
    by (simp add: replace_backslashes_def sample_platform_def glob_match_def)
  have hyps': "registry_at sample_world (getActiveIntentsPath sample_platform ''/ws'') \<noteq> Missing
      \<and> toolName ?c' \<in> {''write_to_file'', ''edit_file'', ''search_replace'', ''apply_diff'',
            ''execute_command'', ''new_task'', ''edit'', ''search_and_replace'', ''apply_patch''}
      \<and> activeIntentId ?c' = Some ''INT-001'' \<and> ''INT-001'' \<noteq> []
      \<and> extractTargetPath ?c' = Some ''docs/readme.md'' \<and> ''docs/readme.md'' \<noteq> []
      \<and> getActiveIntent sample_platform sample_world ''/ws'' ''INT-001'' = Some ?i
      \<and> owned_scope ?i = Some [''src/foo/**''] \<and> [''src/foo/**''] \<noteq> []"
    by (simp add: sample_registry sample_INT_001 extractTargetPath_def)
  from scope_matches_any_pattern [THEN conjunct1, rule_format, OF hyps', THEN conjunct2, THEN mp, OF outside]
  have denied_outside: "runPreHook sample_platform sample_world ?c' ''/ws''
       = \<lparr>allow = False,
          error = Some (''Scope Violation: Intent '' @ [CHR 0x27] @ ''INT-001'' @ [CHR 0x27]
                        @ '' is not authorized to edit '' @ [CHR 0x27] @ ''docs/readme.md'' @ [CHR 0x27]
                        @ ''. Allowed scope: [src/foo/**]. Request scope expansion if needed.''),
          injectedContext = None\<rparr>"
    by simp
  have resolves: "getActiveIntent sample_platform sample_world ''/ws'' ''INT-001'' \<noteq> None"
    by (simp add: sample_INT_001)
  from resolves inside allowed_inside outside denied_outside show ?thesis
    by (intro conjI)
qed

subsection \<open>Optimistic locking\<close>

text \<open>
  C3. For a call of \<open>write_to_file\<close> with an active intent and a target path that passes
  the scope check and supplies a non-empty \<open>known_content_hash\<close>: if the target file can
  be read and its digest differs from the supplied hash, the call is denied with the
  stale-conflict error, which shows the first eight characters of both hashes; if the
  digest equals the supplied hash, or the file cannot be read (it does not exist), the
  call is allowed. The target is the path itself when absolute and the path joined to
  the workspace root otherwise. The digest of a file is never empty (SHA-256 in
  hexadecimal has 64 characters), which the premise \<open>sha256 P content \<noteq> []\<close> records.
\<close>

theorem stale_hash_conflict:
  assumes "registry_at w (getActiveIntentsPath P cwd) \<noteq> Missing"
    and "toolName context = ''write_to_file''"
    and "activeIntentId context = Some activeId" and "activeId \<noteq> []"
    and "params context ''path'' = Some targetPath" and "targetPath \<noteq> []"
    and "scopeViolation P (getActiveIntent P w cwd activeId) activeId targetPath = None"
    and "params context ''known_content_hash'' = Some knownHash" and "knownHash \<noteq> []"
    and "absolutePath = (if path_isAbsolute P targetPath then targetPath
                         else path_join P cwd targetPath)"
  shows "(\<forall>content. readFile w absolutePath = Some content
            \<and> sha256 P content \<noteq> knownHash \<and> sha256 P content \<noteq> [] \<longrightarrow>
            runPreHook P w context cwd =
              \<lparr>allow = False,
               error = Some (''Stale File Conflict: The file '' @ [CHR 0x27] @ targetPath @ [CHR 0x27]
                             @ '' has been modified since you last read it (your hash: ''
                             @ take 8 knownHash @ ''..., disk hash: '' @ take 8 (sha256 P content)
                             @ ''...). Re-read the file, incorporate the changes, then retry.''),
               injectedContext = None\<rparr>)
         \<and> (\<forall>content. readFile w absolutePath = Some content \<and> sha256 P content = knownHash \<longrightarrow>
              runPreHook P w context cwd = \<lparr>allow = True, error = None, injectedContext = None\<rparr>)
         \<and> (readFile w absolutePath = None \<longrightarrow>
              runPreHook P w context cwd = \<lparr>allow = True, error = None, injectedContext = None\<rparr>)"
proof -
  have mut: "toolName context \<in> set mutatingTools"
    using assms(2) by (simp add: mutatingTools_def)
  have target: "extractTargetPath context = Some targetPath"
    using assms(2,5) by (simp add: extractTargetPath_def)
  have run: "runPreHook P w context cwd =
               (case staleConflict P w context cwd targetPath of
                  Some err \<Rightarrow> denied err | None \<Rightarrow> allowed)"
    using runPreHook_mutating [OF assms(1) mut assms(3,4) target assms(6)] assms(7) by simp
  have lock: "staleConflict P w context cwd targetPath =
                (case readFile w absolutePath of
                   None \<Rightarrow> None
                 | Some content \<Rightarrow>
                     if sha256 P content \<noteq> [] \<and> sha256 P content \<noteq> knownHash
                     then Some (staleError targetPath knownHash (sha256 P content))
                     else None)"
    using assms(2,8,9,10)
    by (simp add: staleConflict_def hashFileOnDisk_def split: option.splits)
  show ?thesis
    unfolding run lock
    by (auto simp: denied_def allowed_def staleError_def slice0_def)
qed

theorem stale_hash_conflict_witness:
  "readFile sample_world ''/ws/src/foo/bar.ts'' = Some ''export {}''
   \<and> sha256 sample_platform ''export {}'' \<noteq> ''0ld-hash-of-bar''
   \<and> runPreHook sample_platform sample_world
        \<lparr>toolName = ''write_to_file'',
         params = [''path'' \<mapsto> ''src/foo/bar.ts'', ''known_content_hash'' \<mapsto> ''0ld-hash-of-bar''],
         activeIntentId = Some ''INT-001''\<rparr> ''/ws''
       = \<lparr>allow = False,
          error = Some (''Stale File Conflict: The file '' @ [CHR 0x27] @ ''src/foo/bar.ts'' @ [CHR 0x27]
                        @ '' has been modified since you last read it (your hash: 0ld-hash..., disk hash: 5ha256-e...). Re-read the file, incorporate the changes, then retry.''),
          injectedContext = None\<rparr>
   \<and> runPreHook sample_platform sample_world
        \<lparr>toolName = ''write_to_file'',
         params = [''path'' \<mapsto> ''src/foo/bar.ts'',
                   ''known_content_hash'' \<mapsto> sha256 sample_platform ''export {}''],
         activeIntentId = Some ''INT-001''\<rparr> ''/ws''
       = \<lparr>allow = True, error = None, injectedContext = None\<rparr>
   \<and> readFile sample_world ''/ws/src/foo/new.ts'' = None
   \<and> runPreHook sample_platform sample_world
        \<lparr>toolName = ''write_to_file'',
         params = [''path'' \<mapsto> ''src/foo/new.ts'', ''known_content_hash'' \<mapsto> ''0ld-hash-of-bar''],
         activeIntentId = Some ''INT-001''\<rparr> ''/ws''
       = \<lparr>allow = True, error = None, injectedContext = None\<rparr>"
proof -
  let ?stale = "\<lparr>toolName = ''write_to_file'',
         params = [''path'' \<mapsto> ''src/foo/bar.ts'', ''known_content_hash'' \<mapsto> ''0ld-hash-of-bar''],
         activeIntentId = Some ''INT-001''\<rparr>"
  let ?fresh = "\<lparr>toolName = ''write_to_file'',
         params = [''path'' \<mapsto> ''src/foo/bar.ts'',
                   ''known_content_hash'' \<mapsto> sha256 sample_platform ''export {}''],
         activeIntentId = Some ''INT-001''\<rparr>"
  let ?new = "\<lparr>toolName = ''write_to_file'',
         params = [''path'' \<mapsto> ''src/foo/new.ts'', ''known_content_hash'' \<mapsto> ''0ld-hash-of-bar''],
         activeIntentId = Some ''INT-001''\<rparr>"
  have gate: "registry_at sample_world (getActiveIntentsPath sample_platform ''/ws'') \<noteq> Missing"
    by (simp add: sample_registry)
  have bar_ok: "scopeViolation sample_platform
                  (getActiveIntent sample_platform sample_world ''/ws'' ''INT-001'')
                  ''INT-001'' ''src/foo/bar.ts'' = None"
    by (simp add: sample_INT_001 scopeViolation_def replace_backslashes_def sample_glob_inside)
  have new_ok: "scopeViolation sample_platform
                  (getActiveIntent sample_platform sample_world ''/ws'' ''INT-001'')
                  ''INT-001'' ''src/foo/new.ts'' = None"
  proof -
    have "minimatch sample_platform ''src/foo/new.ts'' ''src/foo/**''"
      by (simp add: sample_platform_def glob_match_def)
    then show ?thesis
      by (simp add: sample_INT_001 scopeViolation_def replace_backslashes_def)
  qed
  have bar_abs: "''/ws/src/foo/bar.ts'' = (if path_isAbsolute sample_platform ''src/foo/bar.ts''
                   then ''src/foo/bar.ts'' else path_join sample_platform ''/ws'' ''src/foo/bar.ts'')"
    by (simp add: sample_platform_def)
  have new_abs: "''/ws/src/foo/new.ts'' = (if path_isAbsolute sample_platform ''src/foo/new.ts''
                   then ''src/foo/new.ts'' else path_join sample_platform ''/ws'' ''src/foo/new.ts'')"
    by (simp add: sample_platform_def)
  have on_disk: "readFile sample_world ''/ws/src/foo/bar.ts'' = Some ''export {}''"
    by (simp add: sample_world_def)
  have not_on_disk: "readFile sample_world ''/ws/src/foo/new.ts'' = None"
    by (simp add: sample_world_def)
  have differs: "sha256 sample_platform ''export {}'' \<noteq> ''0ld-hash-of-bar''"
    and nonempty: "sha256 sample_platform ''export {}'' \<noteq> []"
    and prefix: "take 8 (sha256 sample_platform ''export {}'') = ''5ha256-e''"
    by (simp_all add: sample_platform_def)
  from stale_hash_conflict [OF gate _ _ _ _ _ bar_ok _ _ bar_abs, of ?stale "''0ld-hash-of-bar''",
         THEN conjunct1, rule_format, of "''export {}''"]
       on_disk differs nonempty prefix
  have stale: "runPreHook sample_platform sample_world ?stale ''/ws''
       = \<lparr>allow = False,
          error = Some (''Stale File Conflict: The file '' @ [CHR 0x27] @ ''src/foo/bar.ts'' @ [CHR 0x27]
                        @ '' has been modified since you last read it (your hash: 0ld-hash..., disk hash: 5ha256-e...). Re-read the file, incorporate the changes, then retry.''),
          injectedContext = None\<rparr>"
    by simp
  from stale_hash_conflict [OF gate _ _ _ _ _ bar_ok _ _ bar_abs, of ?fresh
         "sha256 sample_platform ''export {}''",
         THEN conjunct2, THEN conjunct1, rule_format, of "''export {}''"]
       on_disk nonempty
  have fresh: "runPreHook sample_platform sample_world ?fresh ''/ws''
       = \<lparr>allow = True, error = None, injectedContext = None\<rparr>"
    by simp
  from stale_hash_conflict [OF gate _ _ _ _ _ new_ok _ _ new_abs, of ?new "''0ld-hash-of-bar''",
         THEN conjunct2, THEN conjunct2]
       not_on_disk
  have new: "runPreHook sample_platform sample_world ?new ''/ws''
       = \<lparr>allow = True, error = None, injectedContext = None\<rparr>"
    by simp
  from on_disk differs stale fresh not_on_disk new show ?thesis
    by (intro conjI)
qed

subsection \<open>An intent with an empty scope\<close>

text \<open>
  With \<open>owned_scope = []\<close> the guard of Phase 2b holds (an empty array is truthy and is
  an array) and \<open>some\<close> over no pattern is false: every target path is out of scope.
\<close>

lemma empty_scope_denies_every_path:
  assumes "registry_at w (getActiveIntentsPath P cwd) \<noteq> Missing"
    and "toolName context \<in> set mutatingTools"
    and "activeIntentId context = Some activeId" and "activeId \<noteq> []"
    and "extractTargetPath context = Some targetPath" and "targetPath \<noteq> []"
    and "getActiveIntent P w cwd activeId = Some i" and "owned_scope i = Some []"
  shows "runPreHook P w context cwd = denied (scopeError activeId targetPath [])"
  using runPreHook_mutating [OF assms(1-6)] assms(7,8)
  by (simp add: scopeViolation_def)

lemma sample_INT_002:
  "getActiveIntent sample_platform sample_world ''/ws'' ''INT-002''
     = Some \<lparr>intent_id = ''INT-002'', name = Some ''Housekeeping'', status = Some ''IN_PROGRESS'',
             owned_scope = Some [], constraints = None, acceptance_criteria = None\<rparr>"
  by (simp add: getActiveIntent_def sample_registry sample_intents_def)

text \<open>
  C1. The claim is that an intent whose \<open>owned_scope\<close> is the empty list allows a
  mutation of any path. On the code it does not: in the sample workspace the intent
  \<open>INT-002\<close> has \<open>owned_scope = []\<close>; selecting it shows the scope as \<open>Any\<close> in the
  injected context, and the following \<open>write_to_file\<close> on \<open>src/a.ts\<close> under that
  intent is denied with a scope violation that prints the allowed scope as \<open>[]\<close>.
\<close>

theorem empty_scope_write_denied:
  "runPreHook sample_platform sample_world
     \<lparr>toolName = ''select_active_intent'', params = [''intent_id'' \<mapsto> ''INT-002''],
      activeIntentId = None\<rparr> ''/ws''
    = \<lparr>allow = True, error = None,
       injectedContext = Some (js_join [CHR 0x0A]
         [''<intent_context>'',
          ''  <id>INT-002</id>'',
          ''  <name>Housekeeping</name>'',
          ''  <status>IN_PROGRESS</status>'',
          ''  <owned_scope>'',
          ''    Any'',
          ''  </owned_scope>'',
          ''  <constraints>'',
          ''    None'',
          ''  </constraints>'',
          ''  <acceptance_criteria>'',
          ''    None'',
          ''  </acceptance_criteria>'',
          ''</intent_context>''])\<rparr>
   \<and> runPreHook sample_platform sample_world
        \<lparr>toolName = ''write_to_file'', params = [''path'' \<mapsto> ''src/a.ts'', ''content'' \<mapsto> ''x''],
         activeIntentId = Some ''INT-002''\<rparr> ''/ws''
       = \<lparr>allow = False,
          error = Some (''Scope Violation: Intent '' @ [CHR 0x27] @ ''INT-002'' @ [CHR 0x27]
                        @ '' is not authorized to edit '' @ [CHR 0x27] @ ''src/a.ts'' @ [CHR 0x27]
                        @ ''. Allowed scope: []. Request scope expansion if needed.''),
          injectedContext = None\<rparr>"
proof (intro conjI)
  show "runPreHook sample_platform sample_world
     \<lparr>toolName = ''select_active_intent'', params = [''intent_id'' \<mapsto> ''INT-002''],
      activeIntentId = None\<rparr> ''/ws''
    = \<lparr>allow = True, error = None,
       injectedContext = Some (js_join [CHR 0x0A]
         [''<intent_context>'',
          ''  <id>INT-002</id>'',
          ''  <name>Housekeeping</name>'',
          ''  <status>IN_PROGRESS</status>'',
          ''  <owned_scope>'',
          ''    Any'',
          ''  </owned_scope>'',
          ''  <constraints>'',
          ''    None'',
          ''  </constraints>'',
          ''  <acceptance_criteria>'',
          ''    None'',
          ''  </acceptance_criteria>'',
          ''</intent_context>''])\<rparr>"
    by (simp add: runPreHook_def sample_registry selectActiveIntent_def sample_INT_002
          injectedContextOf_def renderList_def or_else_def template_def)
next
  let ?c = "\<lparr>toolName = ''write_to_file'', params = [''path'' \<mapsto> ''src/a.ts'', ''content'' \<mapsto> ''x''],
             activeIntentId = Some ''INT-002''\<rparr>"
  have gate: "registry_at sample_world (getActiveIntentsPath sample_platform ''/ws'') \<noteq> Missing"
    by (simp add: sample_registry)
  have tool: "toolName ?c \<in> set mutatingTools"
    by (simp add: mutatingTools_def)
  have target: "extractTargetPath ?c = Some ''src/a.ts''"
    by (simp add: extractTargetPath_def)
  from empty_scope_denies_every_path [OF gate tool _ _ target _ sample_INT_002]
  show "runPreHook sample_platform sample_world ?c ''/ws''
       = \<lparr>allow = False,
          error = Some (''Scope Violation: Intent '' @ [CHR 0x27] @ ''INT-002'' @ [CHR 0x27]
                        @ '' is not authorized to edit '' @ [CHR 0x27] @ ''src/a.ts'' @ [CHR 0x27]
                        @ ''. Allowed scope: []. Request scope expansion if needed.''),
          injectedContext = None\<rparr>"
    by (simp add: denied_def scopeError_def)
qed

subsection \<open>The audit trail\<close>

lemma length_split_on: "length (split_on sep s) = Suc (count_list s sep)"
  by (induction s) (auto split: list.splits)

lemma updateIntentMap_no_append:
  "op \<in> set (updateIntentMap P w t cwd intentId intentName filePath) \<Longrightarrow> op \<noteq> AppendFile p s"
  by (auto simp: updateIntentMap_def Let_def split: if_splits)

lemma contentRange_traceEntry:
  "contentRange (traceEntry P w d context cwd activeId targetPath contentModified)
     = Some (JObject
               [(''start_line'', JNumber 1),
                (''end_line'', JNumber (length (split_on (CHR 0x0A) contentModified))),
                (''content_hash'', JString (''sha256:'' @ sha256 P contentModified))])"
  by (simp add: contentRange_def traceEntry_def Let_def)

lemma runPostHook_records:
  assumes "registry_at w (getActiveIntentsPath P cwd) \<noteq> Missing"
    and "activeIntentId context = Some activeId" and "activeId \<noteq> []"
    and "extractModification context = (Some targetPath, Some contentModified)"
    and "targetPath \<noteq> []" and "contentModified \<noteq> []"
  shows "\<exists>rest. runPostHook P w d context cwd =
           AppendFile (getAgentTracePath P cwd)
             (JSON_stringify (traceEntry P w d context cwd activeId targetPath contentModified)
              @ [CHR 0x0A]) # rest
           \<and> (\<forall>op \<in> set rest. \<forall>p s. op \<noteq> AppendFile p s)"
  using assms
  by (auto simp: runPostHook_def Let_def dest: updateIntentMap_no_append)

lemma runPostHook_noop:
  assumes "\<not> (registry_at w (getActiveIntentsPath P cwd) \<noteq> Missing
             \<and> truthy (activeIntentId context)
             \<and> truthy (fst (extractModification context))
             \<and> truthy (snd (extractModification context)))"
  shows "runPostHook P w d context cwd = []"
  using assms
  by (auto simp: runPostHook_def truthy_def split: option.splits prod.splits)

text \<open>
  C6. \<open>runPostHook\<close> appends a trace entry to the audit log if and only if the gate is
  enabled, an active intent id is bound (present and not the empty string), and a
  non-empty target path and a non-empty content are extracted for the tool. Then the
  append is the first write, it is the only append, its data is the serialised entry
  and a line feed, and the content range of the entry has start line 1, as end line the
  number of lines of the content (the pieces of \<open>content.split("\n")\<close>), and as digest
  \<open>sha256:\<close> followed by the hexadecimal SHA-256 of the content. Otherwise the
  post-hook writes nothing.
\<close>

theorem trace_entry_appended_iff:
  "((\<exists>line. AppendFile (getAgentTracePath P cwd) line \<in> set (runPostHook P w d context cwd))
      \<longleftrightarrow> registry_at w (getActiveIntentsPath P cwd) \<noteq> Missing
          \<and> truthy (activeIntentId context)
          \<and> truthy (fst (extractModification context))
          \<and> truthy (snd (extractModification context)))
   \<and> (\<forall>activeId targetPath contentModified.
         registry_at w (getActiveIntentsPath P cwd) \<noteq> Missing
         \<and> activeIntentId context = Some activeId \<and> activeId \<noteq> []
         \<and> extractModification context = (Some targetPath, Some contentModified)
         \<and> targetPath \<noteq> [] \<and> contentModified \<noteq> []
         \<longrightarrow>
           (\<exists>rest. runPostHook P w d context cwd =
              AppendFile (getAgentTracePath P cwd)
                (JSON_stringify (traceEntry P w d context cwd activeId targetPath contentModified)
                 @ [CHR 0x0A]) # rest
              \<and> (\<forall>op \<in> set rest. \<forall>p s. op \<noteq> AppendFile p s))
           \<and> contentRange (traceEntry P w d context cwd activeId targetPath contentModified)
               = Some (JObject
                         [(''start_line'', JNumber 1),
                          (''end_line'', JNumber (length (split_on (CHR 0x0A) contentModified))),
                          (''content_hash'', JString (''sha256:'' @ sha256 P contentModified))]))
   \<and> (\<not> (registry_at w (getActiveIntentsPath P cwd) \<noteq> Missing
           \<and> truthy (activeIntentId context)
           \<and> truthy (fst (extractModification context))
           \<and> truthy (snd (extractModification context)))
        \<longrightarrow> runPostHook P w d context cwd = [])"
proof (intro conjI allI impI)
  let ?cond = "registry_at w (getActiveIntentsPath P cwd) \<noteq> Missing
          \<and> truthy (activeIntentId context)
          \<and> truthy (fst (extractModification context))
          \<and> truthy (snd (extractModification context))"
  show "(\<exists>line. AppendFile (getAgentTracePath P cwd) line \<in> set (runPostHook P w d context cwd))
          \<longleftrightarrow> ?cond"
  proof
    assume "\<exists>line. AppendFile (getAgentTracePath P cwd) line \<in> set (runPostHook P w d context cwd)"
    then have "runPostHook P w d context cwd \<noteq> []" by auto
    then show ?cond using runPostHook_noop [of w P cwd "context" d] by blast
  next
    assume c: ?cond
    then obtain activeId targetPath contentModified where
      "activeIntentId context = Some activeId" "activeId \<noteq> []"
      "extractModification context = (Some targetPath, Some contentModified)"
      "targetPath \<noteq> []" "contentModified \<noteq> []"
      by (cases "extractModification context")
         (auto simp: truthy_def split: option.splits)
    with c runPostHook_records [of w P cwd "context" activeId targetPath contentModified d]
    show "\<exists>line. AppendFile (getAgentTracePath P cwd) line \<in> set (runPostHook P w d context cwd)"
      by auto
  qed
next
  fix activeId targetPath contentModified
  assume h: "registry_at w (getActiveIntentsPath P cwd) \<noteq> Missing
         \<and> activeIntentId context = Some activeId \<and> activeId \<noteq> []
         \<and> extractModification context = (Some targetPath, Some contentModified)
         \<and> targetPath \<noteq> [] \<and> contentModified \<noteq> []"
  then show "\<exists>rest. runPostHook P w d context cwd =
              AppendFile (getAgentTracePath P cwd)
                (JSON_stringify (traceEntry P w d context cwd activeId targetPath contentModified)
                 @ [CHR 0x0A]) # rest
              \<and> (\<forall>op \<in> set rest. \<forall>p s. op \<noteq> AppendFile p s)"
    using runPostHook_records [of w P cwd "context" activeId targetPath contentModified d] by blast
  show "contentRange (traceEntry P w d context cwd activeId targetPath contentModified)
               = Some (JObject
                         [(''start_line'', JNumber 1),
                          (''end_line'', JNumber (length (split_on (CHR 0x0A) contentModified))),
                          (''content_hash'', JString (''sha256:'' @ sha256 P contentModified))])"
    by (rule contentRange_traceEntry)
next
  assume "\<not> (registry_at w (getActiveIntentsPath P cwd) \<noteq> Missing
           \<and> truthy (activeIntentId context)
           \<and> truthy (fst (extractModification context))
           \<and> truthy (snd (extractModification context)))"
  then show "runPostHook P w d context cwd = []"
    by (rule runPostHook_noop)
qed

theorem trace_entry_appended_iff_witness:
  "registry_at sample_world (getActiveIntentsPath sample_platform ''/ws'') \<noteq> Missing
   \<and> truthy (Some ''INT-001'')
   \<and> (\<exists>line. AppendFile ''/ws/.orchestration/agent_trace.jsonl'' line
          \<in> set (runPostHook sample_platform sample_world sample_drawn
                   \<lparr>toolName = ''write_to_file'',
                    params = [''path'' \<mapsto> ''src/foo/bar.ts'', ''content'' \<mapsto> ''a'' @ [CHR 0x0A] @ ''b''],
                    activeIntentId = Some ''INT-001'', mutationClass = None\<rparr> ''/ws''))
   \<and> contentRange (traceEntry sample_platform sample_world sample_drawn
                     \<lparr>toolName = ''write_to_file'',
                      params = [''path'' \<mapsto> ''src/foo/bar.ts'', ''content'' \<mapsto> ''a'' @ [CHR 0x0A] @ ''b''],
                      activeIntentId = Some ''INT-001'', mutationClass = None\<rparr>
                     ''/ws'' ''INT-001'' ''src/foo/bar.ts'' (''a'' @ [CHR 0x0A] @ ''b''))
       = Some (JObject
                 [(''start_line'', JNumber 1),
                  (''end_line'', JNumber 2),
                  (''content_hash'', JString (''sha256:'' @ sha256 sample_platform (''a'' @ [CHR 0x0A] @ ''b'')))])
   \<and> runPostHook sample_platform sample_world sample_drawn
        \<lparr>toolName = ''apply_patch'', params = [''patch'' \<mapsto> ''*** Begin Patch''],
         activeIntentId = Some ''INT-001'', mutationClass = None\<rparr> ''/ws'' = []"
proof -
  let ?c = "\<lparr>toolName = ''write_to_file'',
             params = [''path'' \<mapsto> ''src/foo/bar.ts'', ''content'' \<mapsto> ''a'' @ [CHR 0x0A] @ ''b''],
             activeIntentId = Some ''INT-001'', mutationClass = None\<rparr>"
  let ?c' = "\<lparr>toolName = ''apply_patch'', params = [''patch'' \<mapsto> ''*** Begin Patch''],
              activeIntentId = Some ''INT-001'', mutationClass = None\<rparr>"
  have gate: "registry_at sample_world (getActiveIntentsPath sample_platform ''/ws'') \<noteq> Missing"
    by (simp add: sample_registry)
  have bound: "truthy (Some ''INT-001'')"
    by (simp add: truthy_def)
  have log: "getAgentTracePath sample_platform ''/ws'' = ''/ws/.orchestration/agent_trace.jsonl''"
    by (simp add: getAgentTracePath_def getOrchestrationDir_def sample_platform_def)
  have cond: "registry_at sample_world (getActiveIntentsPath sample_platform ''/ws'') \<noteq> Missing
          \<and> truthy (activeIntentId ?c)
          \<and> truthy (fst (extractModification ?c))
          \<and> truthy (snd (extractModification ?c))"
    using gate by (simp add: extractModification_def truthy_def)
  have hyps: "registry_at sample_world (getActiveIntentsPath sample_platform ''/ws'') \<noteq> Missing
         \<and> activeIntentId ?c = Some ''INT-001'' \<and> ''INT-001'' \<noteq> []
         \<and> extractModification ?c = (Some ''src/foo/bar.ts'', Some (''a'' @ [CHR 0x0A] @ ''b''))
         \<and> ''src/foo/bar.ts'' \<noteq> [] \<and> ''a'' @ [CHR 0x0A] @ ''b'' \<noteq> []"
    using gate by (simp add: extractModification_def)
  have not_extracted: "\<not> (registry_at sample_world (getActiveIntentsPath sample_platform ''/ws'') \<noteq> Missing
          \<and> truthy (activeIntentId ?c')
          \<and> truthy (fst (extractModification ?c'))
          \<and> truthy (snd (extractModification ?c')))"
    by (simp add: extractModification_def truthy_def)
  note inst = trace_entry_appended_iff [of sample_platform "''/ws''" sample_world sample_drawn]
  from inst [of ?c, THEN conjunct1] cond
  have appended: "\<exists>line. AppendFile ''/ws/.orchestration/agent_trace.jsonl'' line
                    \<in> set (runPostHook sample_platform sample_world sample_drawn ?c ''/ws'')"
    unfolding log by blast
  from inst [of ?c, THEN conjunct2, THEN conjunct1, rule_format, OF hyps, THEN conjunct2]
  have range: "contentRange (traceEntry sample_platform sample_world sample_drawn ?c
                     ''/ws'' ''INT-001'' ''src/foo/bar.ts'' (''a'' @ [CHR 0x0A] @ ''b''))
       = Some (JObject
                 [(''start_line'', JNumber 1),
                  (''end_line'', JNumber 2),
                  (''content_hash'', JString (''sha256:'' @ sha256 sample_platform (''a'' @ [CHR 0x0A] @ ''b'')))])"
    by simp
  from inst [of ?c', THEN conjunct2, THEN conjunct2, THEN mp, OF not_extracted]
  have noop: "runPostHook sample_platform sample_world sample_drawn ?c' ''/ws'' = []"
    .
  from gate bound appended range noop show ?thesis
    by (intro conjI)
qed

subsection \<open>The spatial index\<close>

lemma endsWith_append: "endsWith (x @ r) r"
  by (simp add: endsWith_def)

lemma endsWith_same_length: "length r = length r' \<Longrightarrow> endsWith (x @ r) r' \<longleftrightarrow> r = r'"
  by (simp add: endsWith_def)

lemma endsWith_decompose: "endsWith s r \<Longrightarrow> \<exists>x. s = x @ r"
  by (metis append_take_drop_id endsWith_def)

lemma intentMapRow_length:
  "length t = length t' \<Longrightarrow>
   length (intentMapRow i n f t) = length (intentMapRow i n f t')"
  by (simp add: intentMapRow_def)

lemma intentMapRow_inject: "intentMapRow i n f t = intentMapRow i n f t' \<longleftrightarrow> t = t'"
  by (simp add: intentMapRow_def)

lemma endsWith_suffix: "endsWith s (a @ b) \<Longrightarrow> endsWith s b"
proof -
  assume "endsWith s (a @ b)"
  then obtain x where "s = (x @ a) @ b"
    using endsWith_decompose by fastforce
  then show "endsWith s b"
    using endsWith_append by blast
qed

text \<open>The header does not end with a row: a row ends with a space, a bar and a line feed.\<close>

lemma header_is_no_row: "\<not> endsWith intentMapHeader (intentMapRow i n f t)"
proof
  assume "endsWith intentMapHeader (intentMapRow i n f t)"
  then have "endsWith intentMapHeader ((''| '' @ i @ '' | '' @ n @ '' | '' @ [CHR 0x60] @ f @ [CHR 0x60]
               @ '' | '' @ t) @ ('' |'' @ [CHR 0x0A]))"
    by (simp add: intentMapRow_def)
  then have "endsWith intentMapHeader ('' |'' @ [CHR 0x0A])"
    by (rule endsWith_suffix)
  then show False
    by (simp add: endsWith_def intentMapHeader_def)
qed

lemma readFile_perform_all_updateIntentMap:
  "readFile (perform_all w (updateIntentMap P w t cwd i n f)) (getIntentMapPath P cwd)
     = (let existing = (case readFile w (getIntentMapPath P cwd) of
                          Some content \<Rightarrow> content | None \<Rightarrow> intentMapHeader)
        in if endsWith existing (intentMapRow i n f t) then readFile w (getIntentMapPath P cwd)
           else Some (existing @ intentMapRow i n f t))"
  by (simp add: updateIntentMap_def perform_all_def Let_def)

text \<open>
  After an upsert the index ends with the row of that upsert, whether the row was
  written or suppressed.
\<close>

lemma index_ends_with_row:
  "\<exists>x. readFile (perform_all w (updateIntentMap P w t cwd i n f)) (getIntentMapPath P cwd)
         = Some (x @ intentMapRow i n f t)"
proof (cases "readFile w (getIntentMapPath P cwd)")
  case None
  then have "readFile (perform_all w (updateIntentMap P w t cwd i n f)) (getIntentMapPath P cwd)
               = Some (intentMapHeader @ intentMapRow i n f t)"
    by (simp add: readFile_perform_all_updateIntentMap header_is_no_row)
  then show ?thesis by blast
next
  case (Some content)
  show ?thesis
  proof (cases "endsWith content (intentMapRow i n f t)")
    case True
    then obtain x where "content = x @ intentMapRow i n f t"
      using endsWith_decompose by blast
    moreover from True Some
    have "readFile (perform_all w (updateIntentMap P w t cwd i n f)) (getIntentMapPath P cwd)
            = Some content"
      by (simp add: readFile_perform_all_updateIntentMap)
    ultimately show ?thesis by blast
  next
    case False
    with Some
    have "readFile (perform_all w (updateIntentMap P w t cwd i n f)) (getIntentMapPath P cwd)
            = Some (content @ intentMapRow i n f t)"
      by (simp add: readFile_perform_all_updateIntentMap)
    then show ?thesis by blast
  qed
qed

lemma updateIntentMap_existing:
  "readFile w (getIntentMapPath P cwd) = Some content \<Longrightarrow>
   updateIntentMap P w t cwd i n f =
     (if endsWith content (intentMapRow i n f t) then []
      else [WriteFile (getIntentMapPath P cwd) (content @ intentMapRow i n f t)])"
  by (simp add: updateIntentMap_def Let_def)

text \<open>
  The second of two upserts with the same arguments is suppressed when the clock shows
  the same millisecond in both calls.
\<close>

lemma upsert_same_timestamp_suppressed:
  "updateIntentMap P (perform_all w (updateIntentMap P w t cwd i n f)) t cwd i n f = []"
proof -
  obtain x where
    "readFile (perform_all w (updateIntentMap P w t cwd i n f)) (getIntentMapPath P cwd)
       = Some (x @ intentMapRow i n f t)"
    using index_ends_with_row by blast
  from updateIntentMap_existing [OF this, of t i n f] show ?thesis
    by (simp only: endsWith_append if_True)
qed

text \<open>
  It is written when the clock has moved on: the row carries the timestamp, and
  timestamps of \<open>toISOString\<close> have one length.
\<close>

lemma upsert_later_timestamp_written:
  assumes "length t' = length t" and "t' \<noteq> t"
  shows "\<exists>x. readFile (perform_all w (updateIntentMap P w t cwd i n f)) (getIntentMapPath P cwd)
               = Some (x @ intentMapRow i n f t)
            \<and> updateIntentMap P (perform_all w (updateIntentMap P w t cwd i n f)) t' cwd i n f
               = [WriteFile (getIntentMapPath P cwd)
                    ((x @ intentMapRow i n f t) @ intentMapRow i n f t')]"
proof -
  obtain x where x:
    "readFile (perform_all w (updateIntentMap P w t cwd i n f)) (getIntentMapPath P cwd)
       = Some (x @ intentMapRow i n f t)"
    using index_ends_with_row by blast
  have "length (intentMapRow i n f t) = length (intentMapRow i n f t')"
    by (rule intentMapRow_length) (simp add: assms(1))
  then have "endsWith (x @ intentMapRow i n f t) (intentMapRow i n f t')
               \<longleftrightarrow> intentMapRow i n f t = intentMapRow i n f t'"
    by (rule endsWith_same_length)
  with assms(2) have no: "\<not> endsWith (x @ intentMapRow i n f t) (intentMapRow i n f t')"
    by (simp only: intentMapRow_inject) simp
  from updateIntentMap_existing [OF x, of t' i n f] no
  have "updateIntentMap P (perform_all w (updateIntentMap P w t cwd i n f)) t' cwd i n f
          = [WriteFile (getIntentMapPath P cwd)
               ((x @ intentMapRow i n f t) @ intentMapRow i n f t')]"
    by (simp only: if_False)
  with x show ?thesis by blast
qed

text \<open>
  C2. The claim is that two upserts in immediate succession with the same intent id,
  intent name and file path leave one new row. On the code they leave two as soon as
  the clock differs between the calls: in the sample workspace, which has no index yet,
  an upsert at \<open>2026-01-01T00:00:00.000Z\<close> followed by the same upsert one millisecond
  later leaves the header and two rows.
\<close>

theorem repeated_upsert_writes_two_rows:
  "readFile
     (perform_all
        (perform_all sample_world
           (updateIntentMap sample_platform sample_world ''2026-01-01T00:00:00.000Z''
              ''/ws'' ''INT-001'' ''Foo module'' ''src/foo/bar.ts''))
        (updateIntentMap sample_platform
           (perform_all sample_world
              (updateIntentMap sample_platform sample_world ''2026-01-01T00:00:00.000Z''
                 ''/ws'' ''INT-001'' ''Foo module'' ''src/foo/bar.ts''))
           ''2026-01-01T00:00:00.001Z'' ''/ws'' ''INT-001'' ''Foo module'' ''src/foo/bar.ts''))
     ''/ws/.orchestration/intent_map.md''
   = Some (intentMapHeader
           @ ''| INT-001 | Foo module | '' @ [CHR 0x60] @ ''src/foo/bar.ts'' @ [CHR 0x60]
           @ '' | 2026-01-01T00:00:00.000Z |'' @ [CHR 0x0A]
           @ ''| INT-001 | Foo module | '' @ [CHR 0x60] @ ''src/foo/bar.ts'' @ [CHR 0x60]
           @ '' | 2026-01-01T00:00:00.001Z |'' @ [CHR 0x0A])"
proof -
  let ?t = "''2026-01-01T00:00:00.000Z''" and ?t' = "''2026-01-01T00:00:00.001Z''"
  let ?row = "intentMapRow ''INT-001'' ''Foo module'' ''src/foo/bar.ts''"
  let ?w1 = "perform_all sample_world
               (updateIntentMap sample_platform sample_world ?t
                  ''/ws'' ''INT-001'' ''Foo module'' ''src/foo/bar.ts'')"
  have path: "getIntentMapPath sample_platform ''/ws'' = ''/ws/.orchestration/intent_map.md''"
    by (simp add: getIntentMapPath_def getOrchestrationDir_def sample_platform_def)
  have none: "readFile sample_world ''/ws/.orchestration/intent_map.md'' = None"
    by (simp add: sample_world_def)
  have fresh: "\<not> endsWith intentMapHeader (?row ?t)"
    by (rule header_is_no_row)
  have first: "readFile ?w1 ''/ws/.orchestration/intent_map.md'' = Some (intentMapHeader @ ?row ?t)"
    using readFile_perform_all_updateIntentMap
            [of sample_world sample_platform ?t "''/ws''" "''INT-001''" "''Foo module''"
                "''src/foo/bar.ts''"]
          none fresh
    by (simp add: path)
  have "length (?row ?t) = length (?row ?t')"
    by (rule intentMapRow_length) simp
  then have "endsWith (intentMapHeader @ ?row ?t) (?row ?t') \<longleftrightarrow> ?row ?t = ?row ?t'"
    by (rule endsWith_same_length)
  then have moved: "\<not> endsWith (intentMapHeader @ ?row ?t) (?row ?t')"
    by (simp add: intentMapRow_inject)
  have "readFile (perform_all ?w1
                    (updateIntentMap sample_platform ?w1 ?t'
                       ''/ws'' ''INT-001'' ''Foo module'' ''src/foo/bar.ts''))
          ''/ws/.orchestration/intent_map.md''
        = Some (intentMapHeader @ ?row ?t @ ?row ?t')"
    using readFile_perform_all_updateIntentMap
            [of ?w1 sample_platform ?t' "''/ws''" "''INT-001''" "''Foo module''"
                "''src/foo/bar.ts''"]
          first moved
    by (simp add: path)
  then show ?thesis
    by (simp add: intentMapRow_def)
qed

end
